theory Spec2Isabelle
  imports Main "HOL-Library.Sublist" "HOL-Library.AList" "HOL-Library.Word"
begin

section \<open>Strings\<close>

text \<open>
  A Go string is a sequence of bytes; \<^typ>\<open>string\<close> is a list of \<^typ>\<open>char\<close>, each a
  byte, and \<^const>\<open>length\<close> is Go's \<open>len\<close>. The helpers of package \<open>strings\<close> that the
  code calls are the list predicates of the same meaning: \<open>strings.HasSuffix s x\<close> is
  \<^term>\<open>suffix x s\<close>, \<open>strings.HasPrefix s x\<close> is \<^term>\<open>prefix x s\<close> and
  \<open>strings.Contains s x\<close> is \<^term>\<open>sublist x s\<close>.
\<close>

definition HasSuffix :: "string \<Rightarrow> string \<Rightarrow> bool" where
  "HasSuffix s suf = suffix suf s"

definition HasPrefix :: "string \<Rightarrow> string \<Rightarrow> bool" where
  "HasPrefix s pre = prefix pre s"

definition Contains :: "string \<Rightarrow> string \<Rightarrow> bool" where
  "Contains s substr = sublist substr s"

definition TrimPrefix :: "string \<Rightarrow> string \<Rightarrow> string" where
  "TrimPrefix s pre = (if HasPrefix s pre then drop (length pre) s else s)"

section \<open>Errors and their runtime types\<close>

text \<open>
  What the code reads of a \<open>reflect.Type\<close>: its kind (only "pointer or not" is looked at),
  \<open>Name()\<close>, \<open>PkgPath()\<close>, \<open>String()\<close>, and \<open>Elem()\<close> of a pointer type. Two types are the
  same type when these agree. An unnamed pointer type \<open>*T\<close> has an empty name and an
  empty package path, and its \<open>String()\<close> is \<open>*\<close> followed by that of \<open>T\<close>.
\<close>

datatype rtype = RType (IsPtr: bool) (TypeName: string) (PkgPath: string) (TypeString: string)
  (Elem: "rtype option")

text \<open>
  A non-nil \<open>error\<close> interface value: its dynamic type and what \<open>Error()\<close> returns. The
  interface value itself is an option, \<^term>\<open>None\<close> being Go's \<open>nil\<close>.
\<close>

record goerror =
  TypeOf :: rtype
  Error :: string

section \<open>The ignore filter (filters/ignore.go)\<close>

text \<open>
  The entries of \<open>patterns []interface{}\<close>, by the cases of the type switch in
  \<open>ShouldIgnore\<close>; a value of any other type falls through the switch.
\<close>

datatype pattern = PString string | PType rtype | PError goerror | POther

text \<open>
  Two functions of Go's library are parameters of the model. \<open>re p\<close> stands for
  \<open>regexp.Compile(p)\<close>: \<^term>\<open>None\<close> when the pattern does not compile, otherwise
  the predicate \<open>MatchString\<close> of the compiled expression. \<open>asg t p\<close> stands for
  \<open>t.AssignableTo(p)\<close>.
\<close>

type_synonym regexp_Compile = "string \<Rightarrow> (string \<Rightarrow> bool) option"

definition matchesString :: "regexp_Compile \<Rightarrow> string \<Rightarrow> string \<Rightarrow> bool" where
  "matchesString re errName pat =
     (if errName = pat then True
      else if HasSuffix errName (''.'' @ pat) \<or> HasSuffix errName pat then True
      else (case re pat of
              Some MatchString \<Rightarrow> if MatchString errName then True else False
            | None \<Rightarrow> False))"

fun matchPatterns ::
  "regexp_Compile \<Rightarrow> (rtype \<Rightarrow> rtype \<Rightarrow> bool) \<Rightarrow> rtype \<Rightarrow> string \<Rightarrow> pattern list \<Rightarrow> bool"
where
  "matchPatterns re asg errType errName [] = False"
| "matchPatterns re asg errType errName (PString p # ps) =
     (if matchesString re errName p then True else matchPatterns re asg errType errName ps)"
| "matchPatterns re asg errType errName (PType p # ps) =
     (if errType = p \<or> asg errType p then True else matchPatterns re asg errType errName ps)"
| "matchPatterns re asg errType errName (PError p # ps) =
     (if errType = TypeOf p then True else matchPatterns re asg errType errName ps)"
| "matchPatterns re asg errType errName (POther # ps) =
     matchPatterns re asg errType errName ps"

definition errName_of :: "goerror \<Rightarrow> string" where
  "errName_of e = TrimPrefix (TypeString (TypeOf e)) ''*''"

definition ShouldIgnore ::
  "regexp_Compile \<Rightarrow> (rtype \<Rightarrow> rtype \<Rightarrow> bool) \<Rightarrow> pattern list \<Rightarrow> goerror option \<Rightarrow> bool"
where
  "ShouldIgnore re asg patterns err =
     (case err of
        None \<Rightarrow> True
      | Some e \<Rightarrow> matchPatterns re asg (TypeOf e) (errName_of e) patterns)"


subsection \<open>A fragment of Go's regular expressions\<close>

text \<open>
  Package \<open>regexp\<close> is not part of the repository. To run the filter on concrete
  patterns, the fragment of its syntax made of literal characters, \<open>.\<close> and a single
  postfix \<open>*\<close> is interpreted here as the package documents it: \<open>.\<close> matches any
  character but a newline, \<open>x*\<close> matches zero or more \<open>x\<close>, and \<open>MatchString\<close> asks
  whether some substring of the input matches. \<open>regexp_fragment\<close> is \<^term>\<open>None\<close> on
  every pattern outside the fragment, so it stands for \<open>regexp.Compile\<close> only on
  patterns inside it.
\<close>

datatype atom = Lit char | AnyChar

fun atom_matches :: "atom \<Rightarrow> char \<Rightarrow> bool" where
  "atom_matches (Lit c) x = (x = c)"
| "atom_matches AnyChar x = (x \<noteq> CHR 0x0A)"

text \<open>\<open>match_here r s\<close>: some prefix of \<open>s\<close> matches the items \<open>r\<close>; the flag of an item says
  whether it is starred.\<close>

fun match_here :: "(atom \<times> bool) list \<Rightarrow> string \<Rightarrow> bool" where
  "match_here [] s = True"
| "match_here ((a, False) # r) [] = False"
| "match_here ((a, False) # r) (c # s) = (atom_matches a c \<and> match_here r s)"
| "match_here ((a, True) # r) [] = match_here r []"
| "match_here ((a, True) # r) (c # s) =
     (match_here r (c # s) \<or> (atom_matches a c \<and> match_here ((a, True) # r) s))"

fun match_anywhere :: "(atom \<times> bool) list \<Rightarrow> string \<Rightarrow> bool" where
  "match_anywhere r [] = match_here r []"
| "match_anywhere r (c # s) = (match_here r (c # s) \<or> match_anywhere r s)"

definition metachars :: "char list" where
  "metachars = [CHR 0x5C, CHR ''.'', CHR ''+'', CHR ''*'', CHR ''?'', CHR ''('', CHR '')'',
     CHR ''|'', CHR ''['', CHR '']'', CHR ''{'', CHR ''}'', CHR ''^'', CHR ''$'']"

definition parse_atom :: "char \<Rightarrow> atom option" where
  "parse_atom c = (if c = CHR ''.'' then Some AnyChar
                   else if c \<in> set metachars then None else Some (Lit c))"

fun parse :: "string \<Rightarrow> (atom \<times> bool) list option" where
  "parse [] = Some []"
| "parse [c] = map_option (\<lambda>a. [(a, False)]) (parse_atom c)"
| "parse (c # d # rest) =
     (case parse_atom c of
        None \<Rightarrow> None
      | Some a \<Rightarrow>
          if d = CHR ''*'' then map_option (Cons (a, True)) (parse rest)
          else map_option (Cons (a, False)) (parse (d # rest)))"

definition regexp_fragment :: regexp_Compile where
  "regexp_fragment p = map_option match_anywhere (parse p)"

subsection \<open>Some errors\<close>

text \<open>
  \<open>errors.New\<close> returns a \<open>*errors.errorString\<close>; \<open>customError\<close> is the type of the
  package's tests, used through a pointer; \<open>TimeoutError\<close> and \<open>timeoutError\<close> are
  two types of a program's \<open>main\<close> package, used through pointers as well.
\<close>

definition pointer_to :: "rtype \<Rightarrow> rtype" where
  "pointer_to t = RType True [] [] (''*'' @ TypeString t) (Some t)"

definition errors_New :: "string \<Rightarrow> goerror" where
  "errors_New text =
     \<lparr>TypeOf = pointer_to (RType False ''errorString'' ''errors'' ''errors.errorString'' None),
      Error = text\<rparr>"

definition customError :: "string \<Rightarrow> goerror" where
  "customError message =
     \<lparr>TypeOf = pointer_to (RType False ''customError''
        ''github.com/Checkend/checkend-go/filters'' ''filters.customError'' None),
      Error = message\<rparr>"

definition TimeoutError :: goerror where
  "TimeoutError =
     \<lparr>TypeOf = pointer_to (RType False ''TimeoutError'' ''main'' ''main.TimeoutError'' None),
      Error = ''request timed out''\<rparr>"

definition timeoutError :: goerror where
  "timeoutError =
     \<lparr>TypeOf = pointer_to (RType False ''timeoutError'' ''main'' ''main.timeoutError'' None),
      Error = ''i/o timeout''\<rparr>"

definition never_assignable :: "rtype \<Rightarrow> rtype \<Rightarrow> bool" where
  "never_assignable t p = False"

section \<open>The sanitize filter (filters/ignore.go, from \<open>SanitizeFilter\<close> on)\<close>

subsection \<open>Values of type \<open>interface{}\<close>\<close>

text \<open>
  The dynamic types that the type switch of \<open>filterValue\<close> tells apart. The twelve
  numeric types are one constructor with the kind beside the number (for the two
  float kinds the number is the bit pattern of the float): the filter returns them
  unchanged. Every other dynamic type takes the \<open>default\<close> branch, where the code
  only asks whether there is a \<open>String()\<close> method and what it returns; the method
  is taken to return. \<open>StringMap\<close> is a \<open>map[string]string\<close>, the type of the
  environment snapshot that the notice builder stores in a context.
\<close>

datatype numkind =
    GoInt | GoInt8 | GoInt16 | GoInt32 | GoInt64
  | GoUint | GoUint8 | GoUint16 | GoUint32 | GoUint64
  | GoFloat32 | GoFloat64

datatype other = Stringer string | StringMap "(string \<times> string) list" | Opaque

text \<open>
  Go's maps and slices are references, so a map can contain itself
  (\<open>m["self"] = m\<close>). The filter only reads its input, so all it can observe of a
  cyclic input is its unfolding into a tree with infinite branches. The type \<open>val\<close>
  is therefore a codatatype: finite and infinite nestings both belong to it. A map is
  the list of its entries in the order \<open>range\<close> visits them; a nil map or slice
  inside another one ranges like an empty one and is the empty list here.
\<close>

codatatype val =
    VMap "(string \<times> val) list"
  | VSlice "val list"
  | VString string
  | VNil
  | VBool bool
  | VNum numkind int
  | VOther other

type_synonym gomap = "(string \<times> val) list"

subsection \<open>The filter\<close>

definition FilteredValue :: string where
  "FilteredValue = ''[FILTERED]''"

definition maxDepth :: int where
  "maxDepth = 10"

definition maxStringLen :: nat where
  "maxStringLen = 10000"

text \<open>
  The field \<open>seen\<close> of the struct is assigned by \<open>Filter\<close> and never read; it is left
  out. \<open>strings.ToLower\<close> is a parameter, written \<open>lc\<close>, of every function that
  calls it.
\<close>

record SanitizeFilter =
  filterKeys :: "string list"

definition NewSanitizeFilter :: "(string \<Rightarrow> string) \<Rightarrow> string list \<Rightarrow> SanitizeFilter" where
  "NewSanitizeFilter lc keys = \<lparr>filterKeys = map lc keys\<rparr>"

definition shouldFilter :: "(string \<Rightarrow> string) \<Rightarrow> SanitizeFilter \<Rightarrow> string \<Rightarrow> bool" where
  "shouldFilter lc f key =
     (let keyLower = lc key
      in list_ex (\<lambda>filterKey. Contains keyLower filterKey) (filterKeys f))"

definition truncateString :: "string \<Rightarrow> string" where
  "truncateString s = (if length s > maxStringLen then take maxStringLen s @ ''...'' else s)"

definition valueToString :: "other \<Rightarrow> string" where
  "valueToString v = (case v of Stringer s \<Rightarrow> s | _ \<Rightarrow> ''[UNKNOWN TYPE]'')"

text \<open>
  The three mutually recursive methods. What decreases along every chain of calls is
  the distance of \<open>depth\<close> to \<open>maxDepth\<close>, not the size of the value: the termination
  proof below does not look at the value at all.
\<close>

function filterMap :: "(string \<Rightarrow> string) \<Rightarrow> SanitizeFilter \<Rightarrow> gomap \<Rightarrow> int \<Rightarrow> gomap"
  and filterValue :: "(string \<Rightarrow> string) \<Rightarrow> SanitizeFilter \<Rightarrow> val \<Rightarrow> int \<Rightarrow> val"
  and filterSlice :: "(string \<Rightarrow> string) \<Rightarrow> SanitizeFilter \<Rightarrow> val list \<Rightarrow> int \<Rightarrow> val list"
where
  "filterMap lc f data depth =
     (if depth > maxDepth then [(''_truncated'', VString ''[MAX DEPTH EXCEEDED]'')]
      else map (\<lambda>(key, v).
                  if shouldFilter lc f key then (key, VString FilteredValue)
                  else (key, filterValue lc f v (depth + 1)))
             data)"
| "filterValue lc f v depth =
     (if depth > maxDepth then VString ''[MAX DEPTH EXCEEDED]''
      else (case v of
              VMap m \<Rightarrow> VMap (filterMap lc f m depth)
            | VSlice xs \<Rightarrow> VSlice (filterSlice lc f xs depth)
            | VString s \<Rightarrow> VString (truncateString s)
            | VNil \<Rightarrow> v
            | VBool b \<Rightarrow> v
            | VNum k n \<Rightarrow> v
            | VOther x \<Rightarrow> VString (truncateString (valueToString x))))"
| "filterSlice lc f data depth = map (\<lambda>item. filterValue lc f item (depth + 1)) data"
  by pat_completeness auto
termination
  by (relation "measure (\<lambda>call. case call of
        Inl (lc, f, data, depth) \<Rightarrow> Suc (2 * nat (maxDepth - depth))
      | Inr (Inl (lc, f, v, depth)) \<Rightarrow> 2 * nat (maxDepth + 1 - depth)
      | Inr (Inr (lc, f, data, depth)) \<Rightarrow> Suc (2 * nat (maxDepth - depth)))")
    (auto simp: maxDepth_def)

lemmas filter_simps = filterMap.simps filterValue.simps filterSlice.simps

declare filter_simps [simp del]

text \<open>The argument and the result of \<open>Filter\<close> can be the nil map, \<^term>\<open>None\<close> here.\<close>

definition Filter ::
  "(string \<Rightarrow> string) \<Rightarrow> SanitizeFilter \<Rightarrow> gomap option \<Rightarrow> gomap option" where
  "Filter lc f data =
     (case data of
        None \<Rightarrow> None
      | Some m \<Rightarrow> Some (filterMap lc f m 0))"

subsection \<open>Positions inside a value\<close>







subsection \<open>Some values\<close>

text \<open>Lower-casing of ASCII letters, which is what \<open>strings.ToLower\<close> does to ASCII text.\<close>

definition ascii_lower :: "string \<Rightarrow> string" where
  "ascii_lower s =
     map (\<lambda>c. case map_of (zip ''ABCDEFGHIJKLMNOPQRSTUVWXYZ'' ''abcdefghijklmnopqrstuvwxyz'') c of
                Some l \<Rightarrow> l
              | None \<Rightarrow> c) s"


text \<open>The input of the package's test of nested data, and its filter keys.\<close>

definition nested_keys :: "string list" where
  "nested_keys = [''password'', ''token'']"

definition nested_data :: gomap where
  "nested_data =
     [(''user'', VMap
        [(''name'', VString ''John''),
         (''credentials'', VMap
            [(''password'', VString ''secret123''),
             (''api_token'', VString ''abc123'')])])]"


section \<open>Notices and payloads (notice.go)\<close>

text \<open>
  A \<open>time.Time\<close> is the instant it denotes, in nanoseconds since the Unix epoch. A map
  field can be the nil map, \<^term>\<open>None\<close>; \<open>len\<close> of it is then 0.
\<close>

type_synonym gotime = int

record NotifierInfo =
  Name :: string
  Version :: string
  Language :: string
  LanguageVersion :: string

record Notice =
  ErrorClass :: string
  Message :: string
  Backtrace :: "string list"
  Fingerprint :: string
  Tags :: "string list"
  Context :: "gomap option"
  Request :: "gomap option"
  User :: "gomap option"
  Environment :: string
  OccurredAt :: gotime
  Notifier :: NotifierInfo
  AppName :: string
  Revision :: string
  Hostname :: string

record ServerInfo =
  AppName :: string
  Revision :: string
  Hostname :: string

record ErrorPayload =
  Class :: string
  Message :: string
  Backtrace :: "string list"
  Fingerprint :: string
  Tags :: "string list"
  OccurredAt :: string

record Payload =
  Error :: ErrorPayload
  Context :: gomap
  Request :: "gomap option"
  User :: "gomap option"
  Notifier :: NotifierInfo
  Server :: "ServerInfo option"

definition entries :: "gomap option \<Rightarrow> gomap" where
  "entries m = (case m of None \<Rightarrow> [] | Some es \<Rightarrow> es)"

definition len :: "gomap option \<Rightarrow> nat" where
  "len m = length (entries m)"

text \<open>
  \<open>ToPayload\<close>. The assignment \<open>ctx[k] = v\<close> is \<^const>\<open>AList.update\<close>, and the \<open>range\<close>
  loop makes the assignments one after the other. \<open>rfc3339 t\<close> stands for
  \<open>t.UTC().Format(time.RFC3339)\<close>.
\<close>

definition ToPayload :: "(gotime \<Rightarrow> string) \<Rightarrow> Notice \<Rightarrow> Payload" where
  "ToPayload rfc3339 n =
     (let ctx = [(''environment'', VString (Notice.Environment n))];
          ctx = fold (\<lambda>(k, v) ctx. AList.update k v ctx) (entries (Notice.Context n)) ctx
      in \<lparr>Payload.Error =
            \<lparr>ErrorPayload.Class = Notice.ErrorClass n,
             ErrorPayload.Message = Notice.Message n,
             ErrorPayload.Backtrace = Notice.Backtrace n,
             ErrorPayload.Fingerprint = Notice.Fingerprint n,
             ErrorPayload.Tags = Notice.Tags n,
             ErrorPayload.OccurredAt = rfc3339 (Notice.OccurredAt n)\<rparr>,
          Payload.Context = ctx,
          Payload.Request = (if len (Notice.Request n) > 0 then Notice.Request n else None),
          Payload.User = (if len (Notice.User n) > 0 then Notice.User n else None),
          Payload.Notifier = Notice.Notifier n,
          Payload.Server =
            (if Notice.AppName n \<noteq> [] \<or> Notice.Revision n \<noteq> [] \<or> Notice.Hostname n \<noteq> []
             then Some \<lparr>ServerInfo.AppName = Notice.AppName n,
                        ServerInfo.Revision = Notice.Revision n,
                        ServerInfo.Hostname = Notice.Hostname n\<rparr>
             else None)\<rparr>)"

section \<open>The configuration (configuration.go)\<close>

text \<open>
  The resolved configuration, without the list of \<open>BeforeNotify\<close> callbacks, which
  nothing modelled here calls. Durations are nanoseconds.
\<close>

record Configuration =
  APIKey :: string
  Endpoint :: string
  Environment :: string
  Enabled :: bool
  AsyncSend :: bool
  MaxQueueSize :: int
  Timeout :: int
  ConnectTimeout :: int
  ShutdownTimeout :: int
  FilterKeys :: "string list"
  IgnoredErrors :: "pattern list"
  Debug :: bool
  AppName :: string
  Revision :: string
  RootPath :: string
  SendRequestData :: bool
  SendSessionData :: bool
  SendEnvironment :: bool
  SendUserData :: bool
  Proxy :: string
  SSLVerify :: bool

definition Version :: string where
  "Version = ''0.1.0''"

section \<open>The delivery client (notice.go, from \<open>APIResponse\<close> on)\<close>

subsection \<open>Formatting numbers\<close>

text \<open>The verb \<open>%d\<close> of \<open>fmt.Sprintf\<close> on an \<open>int\<close>.\<close>

fun digit :: "nat \<Rightarrow> char" where
  "digit n = ''0123456789'' ! (n mod 10)"

function decimal :: "nat \<Rightarrow> string" where
  "decimal n = (if n < 10 then [digit n] else decimal (n div 10) @ [digit n])"
  by pat_completeness auto
termination
  by (relation "measure id") auto

declare decimal.simps [simp del]

definition Itoa :: "int \<Rightarrow> string" where
  "Itoa i = (if i < 0 then ''-'' @ decimal (nat (- i)) else decimal (nat i))"

subsection \<open>What lies outside\<close>

text \<open>
  A Go \<open>error\<close> that is only printed is its text. The calls that leave the repository
  are the fields of a record, one value of which describes how the libraries and the
  network answer during one call of \<open>Send\<close>: \<open>json.Marshal\<close>, \<open>http.NewRequest\<close>
  (of method, URL and body), \<open>httpClient.Do\<close>, \<open>json.Unmarshal\<close> into an
  \<open>APIResponse\<close>, and the formatting of a time. The body of a response is what
  \<open>io.ReadAll\<close> makes of it: an error or the bytes.
\<close>

record APIResponse =
  ID :: int
  ProblemID :: int

record http_Request =
  Method :: string
  URL :: string
  Header :: "(string \<times> string) list"
  Body :: string

record http_Response =
  StatusCode :: int
  ReadAll_Body :: "string + string"

record outside =
  Marshal :: "Payload \<Rightarrow> string + string"
  NewRequest :: "string \<Rightarrow> string \<Rightarrow> string \<Rightarrow> string + http_Request"
  Do :: "http_Request \<Rightarrow> string + http_Response"
  Unmarshal :: "string \<Rightarrow> string + APIResponse"
  RFC3339 :: "gotime \<Rightarrow> string"

subsection \<open>The client\<close>

text \<open>
  The \<open>http.Client\<close> held by the struct is represented by the field \<^const>\<open>Do\<close> above.
  Every function that prints returns the lines it prints.
\<close>

record Client =
  config :: Configuration
  endpoint :: string

definition NewClient :: "Configuration \<Rightarrow> Client" where
  "NewClient cfg = \<lparr>Client.config = cfg, endpoint = Endpoint cfg @ ''/ingest/v1/errors''\<rparr>"

definition log :: "Client \<Rightarrow> string \<Rightarrow> string \<Rightarrow> string list" where
  "log c level message =
     (if \<not> Debug (Client.config c) \<and> level = ''debug'' then []
      else [''[Checkend] ['' @ level @ ''] '' @ message @ [CHR 0x0A]])"

definition handleHTTPError :: "Client \<Rightarrow> int \<Rightarrow> string \<Rightarrow> string list" where
  "handleHTTPError c statusCode body =
     (if statusCode = 401 then log c ''error'' ''Authentication failed: invalid API key''
      else if statusCode = 422 then log c ''error'' (''Validation error: '' @ body)
      else if statusCode = 429 then log c ''warning'' ''Rate limited by Checkend API''
      else if statusCode \<ge> 500 then log c ''error'' (''Server error: '' @ Itoa statusCode)
      else log c ''error'' (''HTTP error: '' @ Itoa statusCode))"

definition Header_Set :: "string \<Rightarrow> string \<Rightarrow> http_Request \<Rightarrow> http_Request" where
  "Header_Set k v req = req\<lparr>Header := AList.update k v (Header req)\<rparr>"

definition with_headers :: "Client \<Rightarrow> http_Request \<Rightarrow> http_Request" where
  "with_headers c req =
     Header_Set ''User-Agent'' (''checkend-go/'' @ Version)
       (Header_Set ''Checkend-Ingestion-Key'' (APIKey (Client.config c))
          (Header_Set ''Content-Type'' ''application/json'' req))"

definition Send :: "outside \<Rightarrow> Client \<Rightarrow> Notice \<Rightarrow> APIResponse option \<times> string list" where
  "Send out c notice =
     (if APIKey (Client.config c) = [] then
        (None, log c ''error'' ''Cannot send notice: api_key not configured'')
      else
        let payload = ToPayload (RFC3339 out) notice in
        case Marshal out payload of
          Inl err \<Rightarrow> (None, log c ''error'' (''Failed to marshal payload: '' @ err))
        | Inr data \<Rightarrow>
        case NewRequest out ''POST'' (endpoint c) data of
          Inl err \<Rightarrow> (None, log c ''error'' (''Failed to create request: '' @ err))
        | Inr req \<Rightarrow>
        case Do out (with_headers c req) of
          Inl err \<Rightarrow> (None, log c ''error'' (''Failed to send request: '' @ err))
        | Inr resp \<Rightarrow>
        case ReadAll_Body resp of
          Inl err \<Rightarrow> (None, log c ''error'' (''Failed to read response: '' @ err))
        | Inr body \<Rightarrow>
        if StatusCode resp \<noteq> 201 then (None, handleHTTPError c (StatusCode resp) body)
        else
        case Unmarshal out body of
          Inl err \<Rightarrow> (None, log c ''error'' (''Failed to parse response: '' @ err))
        | Inr apiResp \<Rightarrow>
            (Some apiResp,
             log c ''debug'' (''Notice sent successfully: {ID:'' @ Itoa (ID apiResp)
               @ '' ProblemID:'' @ Itoa (ProblemID apiResp) @ ''}'')))"

section \<open>The worker (unnamed/part_001)\<close>

text \<open>A run-time panic is a value; a function that can panic returns a sum.\<close>

datatype panic = NilMapAssignment | NilDereference | MakeChanSize

subsection \<open>Sending with retries\<close>

text \<open>
  What the processing goroutine does to its surroundings is recorded in a state:
  \<open>answers i\<close> is how the outside answers the \<open>i\<close>-th call of \<open>Client.Send\<close>,
  \<open>sends\<close> counts these calls, \<open>events\<close> lists the calls of \<open>Client.Send\<close> and of
  \<open>time.Sleep\<close> in the order they happen, and \<open>printed\<close> is the log.
\<close>

datatype event = Sent Notice | Slept int

record world =
  answers :: "nat \<Rightarrow> outside"
  sends :: nat
  events :: "event list"
  printed :: "string list"

definition client_Send :: "Client \<Rightarrow> Notice \<Rightarrow> world \<Rightarrow> APIResponse option \<times> world" where
  "client_Send c notice w =
     (case Send (answers w (sends w)) c notice of
        (resp, lines) \<Rightarrow>
          (resp, w\<lparr>sends := Suc (sends w),
                   events := events w @ [Sent notice],
                   printed := printed w @ lines\<rparr>))"

definition Sleep :: "int \<Rightarrow> world \<Rightarrow> world" where
  "Sleep d w = w\<lparr>events := events w @ [Slept d]\<rparr>"

text \<open>
  \<open>time.Duration(1<<uint(attempt)) * 100 * time.Millisecond\<close>, computed in \<open>int64\<close>; a
  millisecond is \<open>1000000\<close> nanoseconds.
\<close>

definition delay :: "int \<Rightarrow> int" where
  "delay attempt = sint (push_bit (nat attempt) (1 :: 64 word) * 100 * 1000000)"

text \<open>The \<open>for\<close> loop of \<open>sendWithRetry\<close>, from the value \<open>attempt\<close> of its counter on.\<close>

function sendWithRetry_loop :: "Client \<Rightarrow> Notice \<Rightarrow> int \<Rightarrow> int \<Rightarrow> world \<Rightarrow> world" where
  "sendWithRetry_loop c notice maxRetries attempt w =
     (if attempt < maxRetries then
        (case client_Send c notice w of
           (Some resp, w') \<Rightarrow> w'
         | (None, w') \<Rightarrow>
             sendWithRetry_loop c notice maxRetries (attempt + 1)
               (if attempt < maxRetries - 1 then Sleep (delay attempt) w' else w'))
      else w)"
  by pat_completeness auto
termination
  by (relation "measure (\<lambda>(c, notice, maxRetries, attempt, w). nat (maxRetries - attempt))") auto

declare sendWithRetry_loop.simps [simp del]

definition sendWithRetry :: "Client \<Rightarrow> Notice \<Rightarrow> int \<Rightarrow> world \<Rightarrow> world" where
  "sendWithRetry c notice maxRetries w = sendWithRetry_loop c notice maxRetries 0 w"

text \<open>What the \<open>i\<close>-th call of \<open>Client.Send\<close> from the state \<open>w\<close> on returns.\<close>

definition response :: "Client \<Rightarrow> Notice \<Rightarrow> world \<Rightarrow> nat \<Rightarrow> APIResponse option" where
  "response c notice w i = fst (Send (answers w (sends w + i)) c notice)"

subsection \<open>The queue\<close>

text \<open>
  The state of a worker as \<open>Push\<close> sees it: the buffered channel \<open>queue\<close> is the list
  of notices it holds, oldest first, with its capacity, and \<open>running\<close> is the flag the
  mutex guards. \<open>make\<close> panics on a negative capacity. With nobody receiving, the
  \<open>select\<close> of \<open>Push\<close> takes its send case exactly when the buffer has room. The
  channels \<open>done\<close> and \<open>flushCh\<close>, the wait group and the goroutine that \<open>Start\<close>
  launches belong to the concurrent part, which is not modelled.
\<close>

record Worker =
  config :: Configuration
  client :: Client
  queue :: "Notice list"
  queue_cap :: nat
  running :: bool

definition NewWorker :: "Configuration \<Rightarrow> panic + Worker" where
  "NewWorker cfg =
     (if MaxQueueSize cfg < 0 then Inl MakeChanSize
      else Inr \<lparr>Worker.config = cfg, client = NewClient cfg, queue = [],
                queue_cap = nat (MaxQueueSize cfg), running = False\<rparr>)"

definition Start :: "Worker \<Rightarrow> Worker" where
  "Start w = (if running w then w else w\<lparr>running := True\<rparr>)"

definition Push :: "Worker \<Rightarrow> Notice \<Rightarrow> bool \<times> Worker" where
  "Push w notice =
     (if \<not> running w then (False, w)
      else if length (queue w) < queue_cap w then (True, w\<lparr>queue := queue w @ [notice]\<rparr>)
      else (False, w))"

text \<open>Calls of \<open>Push\<close> one after the other, with their results.\<close>

fun pushes :: "Worker \<Rightarrow> Notice list \<Rightarrow> bool list \<times> Worker" where
  "pushes w [] = ([], w)"
| "pushes w (notice # rest) =
     (case Push w notice of
        (ok, w') \<Rightarrow> (case pushes w' rest of (oks, w'') \<Rightarrow> (ok # oks, w'')))"

section \<open>The notice builder (notice_builder.go)\<close>

definition maxBacktraceLines :: nat where
  "maxBacktraceLines = 100"

definition maxMessageLength :: nat where
  "maxMessageLength = 10000"

text \<open>
  What \<open>Build\<close> reads of the process it runs in: the frames that
  \<open>runtime.CallersFrames\<close> yields for the program counters, at most
  \<open>maxBacktraceLines\<close> of them, of \<open>runtime.Callers(4, pcs)\<close>; the clock;
  \<open>os.Hostname()\<close>, where \<^term>\<open>None\<close> is an error; \<open>os.Environ()\<close>; and
  \<open>runtime.Version()\<close>. \<open>strings.ToUpper\<close> is the parameter \<open>uc\<close>. In
  \<open>extractClassName\<close>, \<open>Elem()\<close> of a pointer type is its element type; a pointer
  type without one does not exist in Go and is left as it is.
\<close>

record Frame =
  File :: string
  Line :: int
  Function :: string

record process =
  CallersFrames :: "Frame list"
  Now :: gotime
  os_Hostname :: "string option"
  Environ :: "string list"
  runtime_Version :: string

record NoticeBuilder =
  config :: Configuration
  sanitizeFilter :: SanitizeFilter

definition NewNoticeBuilder :: "(string \<Rightarrow> string) \<Rightarrow> Configuration \<Rightarrow> NoticeBuilder" where
  "NewNoticeBuilder lc cfg =
     \<lparr>NoticeBuilder.config = cfg, sanitizeFilter = NewSanitizeFilter lc (FilterKeys cfg)\<rparr>"

definition extractClassName :: "goerror option \<Rightarrow> string" where
  "extractClassName err =
     (case err of
        None \<Rightarrow> ''error''
      | Some e \<Rightarrow>
          let t = TypeOf e;
              t = (if IsPtr t then (case Elem t of Some t' \<Rightarrow> t' | None \<Rightarrow> t) else t);
              name = TypeName t;
              name = (if name = [] then TypeString t else name)
          in if PkgPath t \<noteq> [] \<and> \<not> HasPrefix (PkgPath t) ''errors''
             then PkgPath t @ ''.'' @ name
             else name)"

text \<open>Calling \<open>Error()\<close> on the nil interface is a nil dereference.\<close>

definition extractMessage :: "goerror option \<Rightarrow> panic + string" where
  "extractMessage err =
     (case err of
        None \<Rightarrow> Inl NilDereference
      | Some e \<Rightarrow>
          let message = goerror.Error e
          in Inr (if length message > maxMessageLength
                  then take maxMessageLength message @ ''...''
                  else message))"

definition cleanFilePath :: "NoticeBuilder \<Rightarrow> string \<Rightarrow> string" where
  "cleanFilePath b path =
     (let root = RootPath (NoticeBuilder.config b)
      in if root \<noteq> [] \<and> HasPrefix path root
         then TrimPrefix (TrimPrefix path root) ''/''
         else path)"

text \<open>
  The loop of \<open>extractBacktrace\<close>: \<open>frame\<close> is what \<open>frames.Next()\<close> has just returned
  and \<open>rest\<close> are the frames still to come, so \<open>more\<close> is \<open>rest \<noteq> []\<close>. On an empty
  sequence \<open>Next\<close> returns the zero frame and \<open>more = false\<close>.
\<close>

fun backtrace_loop :: "NoticeBuilder \<Rightarrow> Frame \<Rightarrow> Frame list \<Rightarrow> string list" where
  "backtrace_loop b frame rest =
     (if Contains (File frame) ''checkend-go'' then
        (case rest of [] \<Rightarrow> [] | next # rest' \<Rightarrow> backtrace_loop b next rest')
      else
        (cleanFilePath b (File frame) @ '':'' @ Itoa (Line frame) @ '' in '' @ Function frame)
        # (case rest of [] \<Rightarrow> [] | next # rest' \<Rightarrow> backtrace_loop b next rest'))"

definition extractBacktrace :: "process \<Rightarrow> NoticeBuilder \<Rightarrow> string list" where
  "extractBacktrace ps b =
     (case CallersFrames ps of
        [] \<Rightarrow> backtrace_loop b \<lparr>File = [], Line = 0, Function = []\<rparr> []
      | frame # rest \<Rightarrow> backtrace_loop b frame rest)"

definition buildNotifier :: "process \<Rightarrow> NotifierInfo" where
  "buildNotifier ps =
     \<lparr>Name = ''checkend-go'', Version = Version, Language = ''go'',
      LanguageVersion = runtime_Version ps\<rparr>"

definition isSensitiveEnvVar :: "(string \<Rightarrow> string) \<Rightarrow> string \<Rightarrow> bool" where
  "isSensitiveEnvVar uc key =
     (let sensitivePatterns =
            [''SECRET'', ''PASSWORD'', ''KEY'', ''TOKEN'', ''CREDENTIAL'', ''AUTH'', ''PRIVATE''];
          keyUpper = uc key
      in list_ex (\<lambda>pattern. Contains keyUpper pattern) sensitivePatterns)"

text \<open>\<open>strings.SplitN(e, "=", 2)\<close> has two parts exactly when \<open>e\<close> contains \<open>=\<close>.\<close>

definition SplitN_2 :: "string \<Rightarrow> (string \<times> string) option" where
  "SplitN_2 e =
     (if CHR ''='' \<in> set e
      then Some (takeWhile (\<lambda>c. c \<noteq> CHR ''='') e, tl (dropWhile (\<lambda>c. c \<noteq> CHR ''='') e))
      else None)"

definition getEnvironmentVars :: "(string \<Rightarrow> string) \<Rightarrow> process \<Rightarrow> (string \<times> string) list" where
  "getEnvironmentVars uc ps =
     fold (\<lambda>e env.
             case SplitN_2 e of
               Some (key, v) \<Rightarrow> if \<not> isSensitiveEnvVar uc key then AList.update key v env else env
             | None \<Rightarrow> env)
       (Environ ps) []"

definition getHostname :: "process \<Rightarrow> string" where
  "getHostname ps = (case os_Hostname ps of None \<Rightarrow> [] | Some hostname \<Rightarrow> hostname)"

text \<open>
  \<open>Build\<close>. Assigning to an entry of the nil map panics; the right-hand side
  \<open>getEnvironmentVars()\<close> has no effect that the panic would leave behind.
\<close>

definition Build ::
  "(string \<Rightarrow> string) \<Rightarrow> (string \<Rightarrow> string) \<Rightarrow> process \<Rightarrow> NoticeBuilder \<Rightarrow> goerror option \<Rightarrow>
   gomap option \<Rightarrow> gomap option \<Rightarrow> gomap option \<Rightarrow> string \<Rightarrow> string list \<Rightarrow> panic + Notice"
where
  "Build lc uc ps b err context user request fingerprint tags =
     (let errorClass = extractClassName err in
      case extractMessage err of
        Inl p \<Rightarrow> Inl p
      | Inr message \<Rightarrow>
      let backtrace = extractBacktrace ps b;
          sanitizedContext = Filter lc (sanitizeFilter b) context
      in
      case (if SendEnvironment (NoticeBuilder.config b)
            then (case sanitizedContext of
                    None \<Rightarrow> Inl NilMapAssignment
                  | Some m \<Rightarrow>
                      Inr (Some (AList.update ''env''
                                   (VOther (StringMap (getEnvironmentVars uc ps))) m)))
            else Inr sanitizedContext) of
        Inl p \<Rightarrow> Inl p
      | Inr sanitizedContext \<Rightarrow>
      let sanitizedUser =
            (if SendUserData (NoticeBuilder.config b) \<and> len user > 0
             then Filter lc (sanitizeFilter b) user else None);
          sanitizedRequest =
            (if SendRequestData (NoticeBuilder.config b) \<and> len request > 0
             then Filter lc (sanitizeFilter b) request else None)
      in Inr \<lparr>ErrorClass = errorClass,
              Notice.Message = message,
              Notice.Backtrace = backtrace,
              Notice.Fingerprint = fingerprint,
              Notice.Tags = tags,
              Notice.Context = sanitizedContext,
              Notice.Request = sanitizedRequest,
              Notice.User = sanitizedUser,
              Notice.Environment = Configuration.Environment (NoticeBuilder.config b),
              Notice.OccurredAt = Now ps,
              Notice.Notifier = buildNotifier ps,
              Notice.AppName = Configuration.AppName (NoticeBuilder.config b),
              Notice.Revision = Configuration.Revision (NoticeBuilder.config b),
              Notice.Hostname = getHostname ps\<rparr>)"

section \<open>Values for the examples\<close>

text \<open>The rendering of the instant 0, which is the instant of every notice below.\<close>

definition format_epoch :: "gotime \<Rightarrow> string" where
  "format_epoch t = ''1970-01-01T00:00:00Z''"

definition example_notifier :: NotifierInfo where
  "example_notifier =
     \<lparr>Name = ''checkend-go'', Version = Version, Language = ''go'', LanguageVersion = ''go1.22''\<rparr>"

definition example_notice :: "string \<Rightarrow> gomap option \<Rightarrow> Notice" where
  "example_notice env ctx =
     \<lparr>ErrorClass = ''errorString'', Notice.Message = ''test error'', Notice.Backtrace = [],
      Notice.Fingerprint = [], Notice.Tags = [], Notice.Context = ctx, Notice.Request = None,
      Notice.User = None, Notice.Environment = env, Notice.OccurredAt = 0,
      Notice.Notifier = example_notifier, Notice.AppName = [], Notice.Revision = [],
      Notice.Hostname = []\<rparr>"

text \<open>
  An outside in which every call succeeds, the server answers with the given status
  and body, and the one body that parses is \<open>{"id":1,"problem_id":2}\<close>.
\<close>

definition example_outside :: "int \<Rightarrow> string \<Rightarrow> outside" where
  "example_outside status body =
     \<lparr>Marshal = (\<lambda>payload. Inr ''{}''),
      NewRequest = (\<lambda>method url data. Inr \<lparr>Method = method, URL = url, Header = [], Body = data\<rparr>),
      Do = (\<lambda>req. Inr \<lparr>StatusCode = status, ReadAll_Body = Inr body\<rparr>),
      Unmarshal = (\<lambda>data. if data = ''{\"id\":1,\"problem_id\":2}''
                           then Inr \<lparr>ID = 1, ProblemID = 2\<rparr>
                           else Inl ''unexpected end of JSON input''),
      RFC3339 = format_epoch\<rparr>"

definition example_config :: "int \<Rightarrow> bool \<Rightarrow> Configuration" where
  "example_config n env =
     \<lparr>APIKey = ''test-key'', Endpoint = ''https://app.checkend.com'',
      Configuration.Environment = ''production'', Enabled = True, AsyncSend = True,
      MaxQueueSize = n, Timeout = 15000000000, ConnectTimeout = 5000000000,
      ShutdownTimeout = 5000000000, FilterKeys = [''password'', ''token''], IgnoredErrors = [],
      Debug = False, Configuration.AppName = [], Configuration.Revision = [], RootPath = [],
      SendRequestData = True, SendSessionData = True, SendEnvironment = env,
      SendUserData = True, Proxy = [], SSLVerify = True\<rparr>"

definition example_process :: process where
  "example_process =
     \<lparr>CallersFrames = [\<lparr>File = ''/app/main.go'', Line = 12, Function = ''main.main''\<rparr>],
      Now = 0, os_Hostname = Some ''web-1'',
      Environ = [''HOME=/root'', ''API_KEY=abc''], runtime_Version = ''go1.22''\<rparr>"

definition example_world :: "(nat \<Rightarrow> outside) \<Rightarrow> world" where
  "example_world a = \<lparr>answers = a, sends = 0, events = [], printed = []\<rparr>"

section \<open>Properties of the ignore filter\<close>

lemma matchesString_suffix: "suffix pat errName \<Longrightarrow> matchesString re errName pat"
  by (simp add: matchesString_def HasSuffix_def)

lemma matchPatterns_PString:
  "PString p \<in> set ps \<Longrightarrow> matchesString re errName p \<Longrightarrow> matchPatterns re asg errType errName ps"
  by (induction re asg errType errName ps rule: matchPatterns.induct) auto

text \<open>
  Claim C10. For a non-nil error and a string pattern among the configured patterns,
  \<open>ShouldIgnore\<close> returns true whenever the error's class name (the type's \<open>String()\<close>
  without a leading \<open>*\<close>) ends with the pattern, with or without a dot before it,
  whatever the regular-expression library and the other patterns say.
\<close>

theorem ShouldIgnore_bare_suffix:
  assumes "PString p \<in> set patterns"
    and "suffix p (errName_of e)"
  shows "ShouldIgnore re asg patterns (Some e)"
  using assms
  by (simp add: ShouldIgnore_def matchPatterns_PString matchesString_suffix)


theorem ShouldIgnore_bare_suffix_witness:
  "PString ''Error'' \<in> set [PString ''Error'']
   \<and> suffix ''Error'' (errName_of (customError ''test''))
   \<and> ShouldIgnore regexp_fragment never_assignable [PString ''Error''] (Some (customError ''test''))"
proof -
  have p: "PString ''Error'' \<in> set [PString ''Error'']"
    by simp
  have s: "suffix ''Error'' (errName_of (customError ''test''))"
    by (simp add: errName_of_def customError_def pointer_to_def TrimPrefix_def HasPrefix_def
        suffix_def)
  show ?thesis
    using p s ShouldIgnore_bare_suffix [OF p s, of regexp_fragment never_assignable]
    by simp
qed

subsection \<open>The pattern \<open>.*timeout.*\<close>\<close>

lemma match_here_lits:
  "match_here (map (\<lambda>c. (Lit c, False)) w @ r) s \<longleftrightarrow> (\<exists>t. s = w @ t \<and> match_here r t)"
proof (induction w arbitrary: s)
  case Nil
  then show ?case by simp
next
  case (Cons c w)
  then show ?case by (cases s) auto
qed

lemma match_here_any_star: "match_here [(AnyChar, True)] t"
  by (cases t) auto

lemma match_here_star_skip: "match_here r s \<Longrightarrow> match_here ((a, True) # r) s"
  by (cases s) auto

lemma match_here_star_elim:
  "match_here ((a, True) # r) s \<Longrightarrow> \<exists>t. suffix t s \<and> match_here r t"
proof (induction s)
  case Nil
  then show ?case by auto
next
  case (Cons c s)
  then show ?case by (auto simp: suffix_Cons)
qed

lemma match_anywhere_iff: "match_anywhere r s \<longleftrightarrow> (\<exists>t. suffix t s \<and> match_here r t)"
  by (induction s) (auto simp: suffix_Cons)

lemma match_anywhere_contains:
  "match_anywhere ((AnyChar, True) # map (\<lambda>c. (Lit c, False)) w @ [(AnyChar, True)]) s
     \<longleftrightarrow> sublist w s"
  (is "match_anywhere ?r s \<longleftrightarrow> _")
proof
  assume "match_anywhere ?r s"
  then obtain t where t: "suffix t s" "match_here ?r t"
    by (auto simp: match_anywhere_iff)
  from match_here_star_elim [OF t(2)] obtain u
    where u: "suffix u t" "match_here (map (\<lambda>c. (Lit c, False)) w @ [(AnyChar, True)]) u"
    by auto
  then have "prefix w u"
    by (auto simp: match_here_lits)
  moreover have "suffix u s"
    using u(1) t(1) by (rule suffix_order.trans)
  ultimately show "sublist w s"
    by (auto simp: sublist_altdef')
next
  assume "sublist w s"
  then obtain u where u: "suffix u s" "prefix w u"
    by (auto simp: sublist_altdef')
  then obtain t where "u = w @ t"
    by (auto simp: prefix_def)
  then have "match_here (map (\<lambda>c. (Lit c, False)) w @ [(AnyChar, True)]) u"
    by (auto simp: match_here_lits match_here_any_star)
  then have "match_here ?r u"
    by (rule match_here_star_skip)
  with u(1) show "match_anywhere ?r s"
    by (auto simp: match_anywhere_iff)
qed

lemma regexp_fragment_timeout: "regexp_fragment ''.*timeout.*'' = Some (sublist ''timeout'')"
proof -
  have "parse ''.*timeout.*'' =
          Some ((AnyChar, True) # map (\<lambda>c. (Lit c, False)) ''timeout'' @ [(AnyChar, True)])"
    by (simp add: parse_atom_def metachars_def)
  moreover have
    "match_anywhere ((AnyChar, True) # map (\<lambda>c. (Lit c, False)) ''timeout'' @ [(AnyChar, True)])
       = sublist ''timeout''"
    by (rule ext) (rule match_anywhere_contains)
  ultimately show ?thesis
    by (simp only: regexp_fragment_def option.map)
qed

lemma matchesString_timeout:
  "matchesString regexp_fragment errName ''.*timeout.*'' \<longleftrightarrow> sublist ''timeout'' errName"
proof -
  have "sublist ''timeout'' ''.*timeout.*''"
    by (simp add: sublist_Cons_right)
  moreover have "sublist ''timeout'' errName" if "suffix x errName" and "sublist ''timeout'' x" for x
    using that by (meson sublist_order.order.trans suffix_imp_sublist)
  moreover have "sublist ''timeout'' (''.'' @ ''.*timeout.*'')"
    by (simp add: sublist_Cons_right)
  ultimately show ?thesis
    unfolding matchesString_def HasSuffix_def regexp_fragment_timeout
    by (auto simp del: append.simps)
qed

lemma errName_errors_New: "errName_of (errors_New text) = ''errors.errorString''"
  by (simp add: errName_of_def errors_New_def pointer_to_def TrimPrefix_def HasPrefix_def)

lemma errName_TimeoutError: "errName_of TimeoutError = ''main.TimeoutError''"
  by (simp add: errName_of_def TimeoutError_def pointer_to_def TrimPrefix_def HasPrefix_def)

lemma errName_timeoutError: "errName_of timeoutError = ''main.timeoutError''"
  by (simp add: errName_of_def timeoutError_def pointer_to_def TrimPrefix_def HasPrefix_def)

text \<open>
  Claim C2, as stated, at an error of class \<open>main.TimeoutError\<close>: the class name
  contains \<open>Timeout\<close>, and the filter configured with \<open>.*timeout.*\<close> does not ignore the
  error, since regular expressions match letters case-sensitively.
\<close>

theorem ShouldIgnore_Timeout_counterexample:
  "sublist ''Timeout'' (errName_of TimeoutError)
   \<and> \<not> ShouldIgnore regexp_fragment never_assignable [PString ''.*timeout.*'']
         (Some TimeoutError)"
  by (simp add: ShouldIgnore_def matchesString_timeout errName_TimeoutError sublist_Cons_right)

text \<open>
  Claim C2, amended. Configured with the string pattern \<open>.*timeout.*\<close>, \<open>ShouldIgnore\<close>
  returns true for a non-nil error exactly when its class name contains \<open>timeout\<close>,
  in this case of the letters; it returns false for the plain error of \<open>errors.New\<close>,
  of class \<open>errors.errorString\<close>; and it returns true for a nil error whatever the
  patterns are.
\<close>

theorem ShouldIgnore_timeout_pattern:
  "(ShouldIgnore regexp_fragment asg [PString ''.*timeout.*''] (Some e)
      \<longleftrightarrow> sublist ''timeout'' (errName_of e))
   \<and> \<not> ShouldIgnore regexp_fragment asg [PString ''.*timeout.*''] (Some (errors_New text))
   \<and> ShouldIgnore re asg patterns None"
  by (simp add: ShouldIgnore_def matchesString_timeout errName_errors_New sublist_Cons_right)

theorem ShouldIgnore_timeout_pattern_witness:
  "sublist ''timeout'' (errName_of timeoutError)
   \<and> ShouldIgnore regexp_fragment never_assignable [PString ''.*timeout.*''] (Some timeoutError)
   \<and> \<not> ShouldIgnore regexp_fragment never_assignable [PString ''.*timeout.*'']
         (Some (errors_New ''test''))
   \<and> ShouldIgnore regexp_fragment never_assignable [PString ''customError''] None"
  using ShouldIgnore_timeout_pattern [of never_assignable timeoutError "''test''" regexp_fragment
      "[PString ''customError'']"]
  by (simp add: errName_timeoutError sublist_Cons_right)

section \<open>Properties of the sanitize filter\<close>

lemma truncateString_idem: "truncateString (truncateString s) = truncateString s"
  by (simp add: truncateString_def maxStringLen_def)

lemma filter_idem:
  "filterMap lc f (filterMap lc f data depth) depth = filterMap lc f data depth"
  "filterValue lc f (filterValue lc f v depth) depth = filterValue lc f v depth"
  "filterSlice lc f (filterSlice lc f xs depth) depth = filterSlice lc f xs depth"
proof (induction lc f data depth and lc f v depth and lc f xs depth
    rule: filterMap_filterValue_filterSlice.induct)
  case (1 lc f data depth)
  show ?case
  proof (cases "depth > maxDepth")
    case True
    then show ?thesis by (simp add: filterMap.simps)
  next
    case False
    have "filterMap lc f (filterMap lc f data depth) depth =
       map (\<lambda>(key, v). if shouldFilter lc f key then (key, VString FilteredValue)
                  else (key, filterValue lc f v (depth + 1))) (filterMap lc f data depth)"
      using False by (subst filterMap.simps) simp
    also have "\<dots> = filterMap lc f data depth"
      using False 1 by (subst (1 2) filterMap.simps [of lc f data depth]) auto
    finally show ?thesis .
  qed
next
  case (2 lc f v depth)
  show ?case
  proof (cases "depth > maxDepth")
    case True
    then show ?thesis by (simp add: filterValue.simps)
  next
    case False
    with 2 show ?thesis
      by (cases v) (simp_all add: filterValue.simps [of lc f _ depth] truncateString_idem)
  qed
next
  case (3 lc f xs depth)
  then show ?case
    by (simp add: filterSlice.simps [of lc f _ depth])
qed

text \<open>
  Claim C7. Filtering the result of \<open>Filter\<close> again, with the same filter, gives the
  same map; this holds for the nil map as well.
\<close>

theorem Filter_idempotent: "Filter lc f (Filter lc f data) = Filter lc f data"
  by (cases data) (simp_all add: Filter_def filter_idem)

lemma shouldFilter_nested:
  "shouldFilter ascii_lower (NewSanitizeFilter ascii_lower nested_keys) k
     \<longleftrightarrow> sublist ''password'' (ascii_lower k) \<or> sublist ''token'' (ascii_lower k)"
proof -
  have "map ascii_lower nested_keys = [''password'', ''token'']"
    by (simp add: nested_keys_def ascii_lower_def)
  then show ?thesis
    by (simp add: shouldFilter_def NewSanitizeFilter_def Contains_def Let_def)
qed

lemma Filter_nested_data:
  "Filter ascii_lower (NewSanitizeFilter ascii_lower nested_keys) (Some nested_data) =
     Some [(''user'', VMap
        [(''name'', VString ''John''),
         (''credentials'', VMap
            [(''password'', VString ''[FILTERED]''),
             (''api_token'', VString ''[FILTERED]'')])])]"
  by (simp add: Filter_def nested_data_def filter_simps shouldFilter_nested maxDepth_def
      ascii_lower_def sublist_Cons_right FilteredValue_def truncateString_def maxStringLen_def)

theorem Filter_idempotent_witness:
  "Filter ascii_lower (NewSanitizeFilter ascii_lower nested_keys)
     (Filter ascii_lower (NewSanitizeFilter ascii_lower nested_keys) (Some nested_data))
   = Some [(''user'', VMap
        [(''name'', VString ''John''),
         (''credentials'', VMap
            [(''password'', VString ''[FILTERED]''),
             (''api_token'', VString ''[FILTERED]'')])])]"
  using Filter_idempotent [of ascii_lower "NewSanitizeFilter ascii_lower nested_keys"
      "Some nested_data"]
  by (simp only: Filter_nested_data)


subsection \<open>Reading the result at a position\<close>








subsection \<open>The result does not depend on what a redacted key held\<close>









subsection \<open>The depth cut-off\<close>









section \<open>Properties of the payload\<close>

lemma map_of_fold_update_at:
  "distinct (map fst es) \<Longrightarrow>
   map_of (fold (\<lambda>(k, v) ctx. AList.update k v ctx) es ctx) x =
     (case map_of es x of Some v \<Rightarrow> Some v | None \<Rightarrow> map_of ctx x)"
proof (induction es arbitrary: ctx)
  case Nil
  then show ?case by simp
next
  case (Cons e es)
  obtain k v where e: "e = (k, v)" by (cases e)
  with Cons.prems have "map_of es k = None"
    by (simp add: map_of_eq_None_iff)
  with Cons e show ?case
    by (simp add: update_conv' split: option.splits)
qed

lemma map_of_fold_update:
  "distinct (map fst es) \<Longrightarrow>
   map_of (fold (\<lambda>(k, v) ctx. AList.update k v ctx) es ctx) = map_of ctx ++ map_of es"
  by (rule ext) (simp add: map_of_fold_update_at map_add_def)

text \<open>
  Claim C3, as stated, at a notice whose context has an entry under \<open>environment\<close>:
  the loop over the context runs after the environment name is stored and overwrites
  it, so the payload does not hold the notice's environment name, and two notices
  that differ in their environment name only have the same payload.
\<close>

theorem ToPayload_environment_counterexample:
  "map_of (Payload.Context (ToPayload format_epoch
       (example_notice ''production'' (Some [(''environment'', VString ''staging'')]))))
     ''environment''
     \<noteq> Some (VString (Notice.Environment
         (example_notice ''production'' (Some [(''environment'', VString ''staging'')]))))
   \<and> ToPayload format_epoch
       (example_notice ''production'' (Some [(''environment'', VString ''staging'')]))
     = ToPayload format_epoch
       (example_notice ''development'' (Some [(''environment'', VString ''staging'')]))"
  by (simp add: ToPayload_def example_notice_def entries_def len_def)

text \<open>
  Claim C3, amended. \<open>ToPayload\<close> is a function of the notice. It copies class,
  message, backtrace, fingerprint, tags and notifier, and renders the time of
  occurrence; it keeps the request and the user map when they have an entry and
  leaves them nil otherwise; the server block is there exactly when one of app name,
  revision and host name is not empty. The payload's context holds every entry of the
  notice's context as it is and, when the notice's context has no entry under
  \<open>environment\<close>, the environment name under that key. The keys of a Go map are
  distinct, which is the hypothesis.
\<close>

theorem ToPayload_fields:
  assumes "distinct (map fst (entries (Notice.Context n)))"
  shows "Payload.Error (ToPayload rfc3339 n) =
           \<lparr>ErrorPayload.Class = Notice.ErrorClass n,
            ErrorPayload.Message = Notice.Message n,
            ErrorPayload.Backtrace = Notice.Backtrace n,
            ErrorPayload.Fingerprint = Notice.Fingerprint n,
            ErrorPayload.Tags = Notice.Tags n,
            ErrorPayload.OccurredAt = rfc3339 (Notice.OccurredAt n)\<rparr>
         \<and> Payload.Notifier (ToPayload rfc3339 n) = Notice.Notifier n
         \<and> Payload.Request (ToPayload rfc3339 n)
             = (if entries (Notice.Request n) = [] then None else Notice.Request n)
         \<and> Payload.User (ToPayload rfc3339 n)
             = (if entries (Notice.User n) = [] then None else Notice.User n)
         \<and> Payload.Server (ToPayload rfc3339 n)
             = (if Notice.AppName n = [] \<and> Notice.Revision n = [] \<and> Notice.Hostname n = []
                then None
                else Some \<lparr>ServerInfo.AppName = Notice.AppName n,
                           ServerInfo.Revision = Notice.Revision n,
                           ServerInfo.Hostname = Notice.Hostname n\<rparr>)
         \<and> map_of (Payload.Context (ToPayload rfc3339 n))
             = [''environment'' \<mapsto> VString (Notice.Environment n)]
                 ++ map_of (entries (Notice.Context n))"
  using assms by (simp add: ToPayload_def len_def map_of_fold_update)

theorem ToPayload_fields_witness:
  "distinct (map fst (entries (Some [(''user_id'', VNum GoInt 42)])))
   \<and> map_of (Payload.Context
         (ToPayload format_epoch (example_notice ''production'' (Some [(''user_id'', VNum GoInt 42)]))))
       = [''environment'' \<mapsto> VString ''production'', ''user_id'' \<mapsto> VNum GoInt 42]
   \<and> Payload.Request
         (ToPayload format_epoch (example_notice ''production'' (Some [(''user_id'', VNum GoInt 42)])))
       = None"
proof -
  have d: "distinct (map fst (entries (Notice.Context
             (example_notice ''production'' (Some [(''user_id'', VNum GoInt 42)])))))"
    by (simp add: example_notice_def entries_def)
  show ?thesis
    using ToPayload_fields [OF d, of format_epoch]
    by (simp add: example_notice_def entries_def)
qed

section \<open>Properties of the client\<close>



section \<open>Properties of the worker\<close>

subsection \<open>Retries\<close>

lemma delay_values: "delay 0 = 100000000" "delay 1 = 200000000"
  by (simp_all add: delay_def)

lemma sendWithRetry_loop_step:
  "attempt < maxRetries \<Longrightarrow>
   sendWithRetry_loop c notice maxRetries attempt w =
     (case client_Send c notice w of
        (Some resp, w') \<Rightarrow> w'
      | (None, w') \<Rightarrow>
          sendWithRetry_loop c notice maxRetries (attempt + 1)
            (if attempt < maxRetries - 1 then Sleep (delay attempt) w' else w'))"
  by (subst sendWithRetry_loop.simps) simp

lemma sendWithRetry_loop_done:
  "\<not> attempt < maxRetries \<Longrightarrow> sendWithRetry_loop c notice maxRetries attempt w = w"
  by (subst sendWithRetry_loop.simps) simp

lemma sendWithRetry_3:
  "sendWithRetry c notice 3 w =
     (case client_Send c notice w of
        (Some r, w1) \<Rightarrow> w1
      | (None, w1) \<Rightarrow>
          (case client_Send c notice (Sleep (delay 0) w1) of
             (Some r, w2) \<Rightarrow> w2
           | (None, w2) \<Rightarrow> snd (client_Send c notice (Sleep (delay 1) w2))))"
proof -
  have third: "sendWithRetry_loop c notice 3 2 w' = snd (client_Send c notice w')" for w'
    by (cases "client_Send c notice w'")
       (simp add: sendWithRetry_loop_step sendWithRetry_loop_done split: option.splits)
  have second: "sendWithRetry_loop c notice 3 1 w' =
      (case client_Send c notice w' of
         (Some r, w2) \<Rightarrow> w2
       | (None, w2) \<Rightarrow> snd (client_Send c notice (Sleep (delay 1) w2)))" for w'
    by (simp add: sendWithRetry_loop_step third split: prod.splits option.splits)
  show ?thesis
    by (simp add: sendWithRetry_def sendWithRetry_loop_step second split: prod.splits option.splits)
qed

text \<open>
  Claim C4. \<open>sendWithRetry\<close> with three attempts, as the processing goroutine calls
  it, from any state: it sends once if the first send returns a response; otherwise
  it sleeps 100 ms and sends again, and stops there if that send returns a response;
  otherwise it sleeps 200 ms and sends a third time, after which it returns whether or
  not a response came. There are at most three sends, and the result is a state: no
  panic and no error value.
\<close>

theorem sendWithRetry_attempts:
  "events (sendWithRetry c notice 3 w) =
     events w @
       (if response c notice w 0 \<noteq> None then [Sent notice]
        else if response c notice w 1 \<noteq> None then [Sent notice, Slept 100000000, Sent notice]
        else [Sent notice, Slept 100000000, Sent notice, Slept 200000000, Sent notice])
   \<and> sends (sendWithRetry c notice 3 w) =
       sends w +
         (if response c notice w 0 \<noteq> None then 1
          else if response c notice w 1 \<noteq> None then 2 else 3)"
  by (auto simp: sendWithRetry_3 client_Send_def Sleep_def response_def delay_values
      split: prod.splits option.splits)


lemma response_example:
  "response (NewClient (example_config 1000 False)) (example_notice ''production'' None)
     (example_world (\<lambda>i. example_outside (if i < 2 then 503 else 201) ''{\"id\":1,\"problem_id\":2}'')) i
   = (if i < 2 then None else Some \<lparr>ID = 1, ProblemID = 2\<rparr>)"
  by (simp add: response_def example_world_def Send_def example_outside_def NewClient_def
      example_config_def)

theorem sendWithRetry_attempts_witness:
  "events (sendWithRetry (NewClient (example_config 1000 False)) (example_notice ''production'' None) 3
     (example_world (\<lambda>i. example_outside (if i < 2 then 503 else 201) ''{\"id\":1,\"problem_id\":2}'')))
   = [Sent (example_notice ''production'' None), Slept 100000000,
      Sent (example_notice ''production'' None), Slept 200000000,
      Sent (example_notice ''production'' None)]
   \<and> sends (sendWithRetry (NewClient (example_config 1000 False)) (example_notice ''production'' None) 3
     (example_world (\<lambda>i. example_outside (if i < 2 then 503 else 201) ''{\"id\":1,\"problem_id\":2}'')))
   = 3"
  using sendWithRetry_attempts [of "NewClient (example_config 1000 False)"
      "example_notice ''production'' None"
      "example_world (\<lambda>i. example_outside (if i < 2 then 503 else 201) ''{\"id\":1,\"problem_id\":2}'')"]
  by (simp add: response_example) (simp add: example_world_def)

subsection \<open>The queue\<close>

lemma pushes_running:
  "running w \<Longrightarrow> length (queue w) + k = queue_cap w \<Longrightarrow>
   pushes w ns =
     (replicate (min k (length ns)) True @ replicate (length ns - k) False,
      w\<lparr>queue := queue w @ take k ns\<rparr>)"
proof (induction ns arbitrary: w k)
  case Nil
  then show ?case by simp
next
  case (Cons n ns)
  show ?case
  proof (cases k)
    case 0
    with Cons.prems have "Push w n = (False, w)"
      by (simp add: Push_def)
    with Cons.IH [OF Cons.prems] 0 show ?thesis
      by (simp add: replicate_append_same)
  next
    case (Suc k')
    let ?w = "w\<lparr>queue := queue w @ [n]\<rparr>"
    from Cons.prems Suc have p: "Push w n = (True, ?w)"
      by (simp add: Push_def)
    have "running ?w" "length (queue ?w) + k' = queue_cap ?w"
      using Cons.prems Suc by simp_all
    from Cons.IH [OF this] p Suc show ?thesis
      by simp
  qed
qed

text \<open>
  Claim C5. On a started worker made by \<open>NewWorker\<close> with queue capacity \<open>N\<close>, with
  nobody taking notices off the queue, \<open>N + 1\<close> calls of \<open>Push\<close> return true \<open>N\<close>
  times and then false, and the queue then holds the first \<open>N\<close> notices in order. On
  a worker that is not running, \<open>Push\<close> returns false and leaves the worker as it is.
\<close>

theorem Push_capacity:
  assumes "NewWorker cfg = Inr w"
    and "length notices = nat (MaxQueueSize cfg)"
    and "\<not> running idle"
  shows "fst (pushes (Start w) (notices @ [extra])) = replicate (nat (MaxQueueSize cfg)) True @ [False]
         \<and> queue (snd (pushes (Start w) (notices @ [extra]))) = notices
         \<and> Push idle extra = (False, idle)"
proof -
  from assms(1) have w: "queue w = []" "queue_cap w = nat (MaxQueueSize cfg)" "\<not> running w"
    by (auto simp: NewWorker_def split: if_splits)
  then have s: "running (Start w)" "queue (Start w) = []" "queue_cap (Start w) = length notices"
    using assms(2) by (simp_all add: Start_def)
  have "length (queue (Start w)) + length notices = queue_cap (Start w)"
    using s by simp
  from pushes_running [OF s(1) this, of "notices @ [extra]"] w assms(3) show ?thesis
    by (simp add: s assms(2) Push_def)
qed

theorem Push_capacity_witness:
  "NewWorker (example_config 2 False) =
     Inr \<lparr>Worker.config = example_config 2 False, client = NewClient (example_config 2 False),
          queue = [], queue_cap = 2, running = False\<rparr>
   \<and> fst (pushes
       (Start \<lparr>Worker.config = example_config 2 False, client = NewClient (example_config 2 False),
          queue = [], queue_cap = 2, running = False\<rparr>)
       ([example_notice ''a'' None, example_notice ''b'' None] @ [example_notice ''c'' None]))
     = [True, True, False]
   \<and> Push \<lparr>Worker.config = example_config 2 False, client = NewClient (example_config 2 False),
          queue = [], queue_cap = 2, running = False\<rparr> (example_notice ''c'' None)
     = (False, \<lparr>Worker.config = example_config 2 False, client = NewClient (example_config 2 False),
          queue = [], queue_cap = 2, running = False\<rparr>)"
proof -
  have 1: "NewWorker (example_config 2 False) =
     Inr \<lparr>Worker.config = example_config 2 False, client = NewClient (example_config 2 False),
          queue = [], queue_cap = 2, running = False\<rparr>"
    by (simp add: NewWorker_def example_config_def)
  have 2: "length [example_notice ''a'' None, example_notice ''b'' None]
             = nat (MaxQueueSize (example_config 2 False))"
    by (simp add: example_config_def)
  have 3: "\<not> running \<lparr>Worker.config = example_config 2 False,
             client = NewClient (example_config 2 False), queue = [], queue_cap = 2,
             running = False\<rparr>"
    by simp
  show ?thesis
    using 1 Push_capacity [OF 1 2 3, of "example_notice ''c'' None"]
    by (simp add: example_config_def eval_nat_numeral)
qed

section \<open>Properties of the notice builder\<close>

text \<open>
  Claim C9. \<open>Filter\<close> maps the nil map to the nil map, and with \<open>SendEnvironment\<close>
  on, \<open>Build\<close> called with a non-nil error and the nil context panics on the
  assignment of the environment snapshot into that nil map, instead of returning a
  notice.
\<close>

theorem Build_nil_context_panics:
  assumes "SendEnvironment (NoticeBuilder.config b)"
  shows "Filter lc (sanitizeFilter b) None = None
         \<and> Build lc uc ps b (Some e) None user request fingerprint tags = Inl NilMapAssignment"
  using assms by (simp add: Build_def Filter_def extractMessage_def Let_def)

theorem Build_nil_context_panics_witness:
  "SendEnvironment (NoticeBuilder.config (NewNoticeBuilder ascii_lower (example_config 1000 True)))
   \<and> Build ascii_lower ascii_lower example_process
       (NewNoticeBuilder ascii_lower (example_config 1000 True))
       (Some (errors_New ''test error'')) None None None [] []
     = Inl NilMapAssignment"
proof -
  have 1: "SendEnvironment (NoticeBuilder.config (NewNoticeBuilder ascii_lower (example_config 1000 True)))"
    by (simp add: NewNoticeBuilder_def example_config_def)
  show ?thesis
    using 1 Build_nil_context_panics [OF 1, of ascii_lower ascii_lower example_process
        "errors_New ''test error''" None None "[]" "[]"]
    by simp
qed

end
